theory Spec2Isabelle
  imports Main "HOL-Library.Word"
begin

section \<open>Data model\<close>

text \<open>
  The program \<^verbatim>\<open>OllamaToGGUF.py\<close> reads a JSON manifest, a JSON configuration blob and a
  list of binary blobs, and writes their concatenation to one output file. The model
  below follows the two functions \<^verbatim>\<open>get_model_size\<close> and \<^verbatim>\<open>recombine_model\<close> (with its helper
  \<^verbatim>\<open>recombine_model_chunked\<close>) statement by statement.

  \<^item> A parsed JSON document is a value of \<open>json\<close>. JSON numbers are kept as integers:
    the program only tests a number for truth, for being a string and for having a length.
  \<^item> A Python exception is a value of \<open>exn\<close>; a function that may raise returns
    \<open>exn + 'a\<close> with \<open>Inl\<close> for the exception.
  \<^item> The file system, the console and the sequence of file-system calls are the three
    fields of \<open>world\<close>; every function that touches one of them takes a world and
    returns the new one.
  \<^item> The file system maps a path to a regular file with its bytes and two permission
    flags. Opening a file fails when the file is absent or the flag forbids it. There are
    no directories (\<^verbatim>\<open>os.makedirs\<close> is taken to succeed) and no device errors: a write
    to an open file and \<^verbatim>\<open>os.remove\<close> succeed.
  \<^item> An object of \<open>json\<close> is an association list in which no key occurs twice.
\<close>

type_synonym byte = "8 word"
type_synonym path = string

datatype json =
    JNull
  | JBool bool
  | JNum int
  | JStr string
  | JArr "json list"
  | JObj "(string \<times> json) list"

datatype exn =
    ValueError string
  | KeyError string
  | IndexError
  | TypeError
  | AttributeError
  | FileNotFoundError path
  | PermissionError path
  | JSONDecodeError
  | ZeroDivisionError

text \<open>
  One constructor per \<^verbatim>\<open>print\<close> / \<^verbatim>\<open>sys.stdout.write\<close> call of the two functions. An event
  keeps the values that the formatted line is built from (the lines that show a size in
  MB or GB, or a percentage, are computed from these values in floating point).
\<close>

datatype event =
    LargeModel nat                       \<comment> \<open>line 113, total size\<close>
  | StandardProcessing                   \<comment> \<open>line 118\<close>
  | ReadingLayers                        \<comment> \<open>line 120\<close>
  | LayerIndex nat                       \<comment> \<open>lines 124 and 200\<close>
  | BlobReading string json path         \<comment> \<open>line 139: model name, media type, blob path\<close>
  | BlobSuccess string json nat          \<comment> \<open>line 146: bytes read\<close>
  | BlobFailed string json path exn      \<comment> \<open>line 152\<close>
  | AbortedErrors string                 \<comment> \<open>line 156\<close>
  | AbortedNoLayers string               \<comment> \<open>line 160\<close>
  | Created path nat                     \<comment> \<open>lines 175 and 244: output path, its size in bytes\<close>
  | WriteError exn                       \<comment> \<open>line 179\<close>
  | ChunkedStart int                     \<comment> \<open>line 190, chunk size\<close>
  | BlobNotFound string json path        \<comment> \<open>line 210\<close>
  | ProcessingBlob string json path nat  \<comment> \<open>line 219: blob path, file size\<close>
  | Progress nat nat                     \<comment> \<open>line 230: bytes processed, file size\<close>
  | ProgressEnd                          \<comment> \<open>line 233\<close>
  | ProcessedBlob string json nat        \<comment> \<open>line 235: file size\<close>
  | ProcessingFailed string json path exn  \<comment> \<open>line 240\<close>
  | ChunkedError exn                     \<comment> \<open>line 248\<close>
  | RemovedIncomplete                    \<comment> \<open>line 253\<close>

record inode =
  content :: "byte list"
  readable :: bool
  writable :: bool

datatype io_op =
    Stat path            \<comment> \<open>\<^verbatim>\<open>os.path.exists\<close>, \<^verbatim>\<open>os.path.getsize\<close>\<close>
  | OpenRead path        \<comment> \<open>\<^verbatim>\<open>open(p)\<close>, \<^verbatim>\<open>open(p, 'rb')\<close>\<close>
  | OpenWrite path       \<comment> \<open>\<^verbatim>\<open>open(p, 'wb')\<close>\<close>
  | WriteBytes path nat  \<comment> \<open>\<^verbatim>\<open>f.write(data)\<close>, with the number of bytes\<close>
  | Remove path          \<comment> \<open>\<^verbatim>\<open>os.remove\<close>\<close>

record world =
  files :: "path \<Rightarrow> inode option"
  stdout :: "event list"
  trace :: "io_op list"

section \<open>Python and operating-system primitives\<close>

fun truthy :: "json \<Rightarrow> bool" where
  "truthy JNull = False"
| "truthy (JBool b) = b"
| "truthy (JNum n) = (n \<noteq> 0)"
| "truthy (JStr s) = (s \<noteq> [])"
| "truthy (JArr xs) = (xs \<noteq> [])"
| "truthy (JObj kvs) = (kvs \<noteq> [])"

text \<open>\<^verbatim>\<open>d.get(k)\<close>: only a dictionary has the method; a missing key gives \<^verbatim>\<open>None\<close>.\<close>

fun py_get :: "json \<Rightarrow> string \<Rightarrow> exn + json" where
  "py_get (JObj kvs) k = Inr (case map_of kvs k of None \<Rightarrow> JNull | Some v \<Rightarrow> v)"
| "py_get _ k = Inl AttributeError"

text \<open>\<^verbatim>\<open>d[k]\<close> with a string key: a dictionary looks the key up, anything else raises TypeError.\<close>

fun py_getitem :: "json \<Rightarrow> string \<Rightarrow> exn + json" where
  "py_getitem (JObj kvs) k = (case map_of kvs k of None \<Rightarrow> Inl (KeyError k) | Some v \<Rightarrow> Inr v)"
| "py_getitem _ k = Inl TypeError"

fun py_len :: "json \<Rightarrow> exn + nat" where
  "py_len (JStr s) = Inr (length s)"
| "py_len (JArr xs) = Inr (length xs)"
| "py_len (JObj kvs) = Inr (length kvs)"
| "py_len _ = Inl TypeError"

text \<open>Iteration of a \<^verbatim>\<open>for\<close> loop: a dictionary yields its keys, a string its characters.\<close>

fun py_iter :: "json \<Rightarrow> exn + json list" where
  "py_iter (JArr xs) = Inr xs"
| "py_iter (JObj kvs) = Inr (map (\<lambda>kv. JStr (fst kv)) kvs)"
| "py_iter (JStr s) = Inr (map (\<lambda>c. JStr [c]) s)"
| "py_iter _ = Inl TypeError"

text \<open>\<^verbatim>\<open>s.split(c)\<close> for a one-character separator; the result is never empty.\<close>

fun split_str :: "char \<Rightarrow> string \<Rightarrow> string list" where
  "split_str c [] = [[]]"
| "split_str c (x # xs) =
     (if x = c then [] # split_str c xs
      else (case split_str c xs of
              [] \<Rightarrow> [[x]]
            | p # ps \<Rightarrow> (x # p) # ps))"

fun py_split :: "json \<Rightarrow> exn + string list" where
  "py_split (JStr s) = Inr (split_str CHR '':'' s)"
| "py_split _ = Inl AttributeError"

definition emit :: "event \<Rightarrow> world \<Rightarrow> world" where
  "emit e w = w\<lparr>stdout := stdout w @ [e]\<rparr>"

definition log_io :: "io_op \<Rightarrow> world \<Rightarrow> world" where
  "log_io op w = w\<lparr>trace := trace w @ [op]\<rparr>"

definition os_path_exists :: "path \<Rightarrow> world \<Rightarrow> bool \<times> world" where
  "os_path_exists p w = (files w p \<noteq> None, log_io (Stat p) w)"

definition os_path_getsize :: "path \<Rightarrow> world \<Rightarrow> (exn + nat) \<times> world" where
  "os_path_getsize p w =
     (case files w p of
        None \<Rightarrow> (Inl (FileNotFoundError p), log_io (Stat p) w)
      | Some f \<Rightarrow> (Inr (length (content f)), log_io (Stat p) w))"

text \<open>
  \<^verbatim>\<open>open(p)\<close> and \<^verbatim>\<open>open(p, 'rb')\<close>: the exception of \<^verbatim>\<open>open\<close>, or the bytes that the
  \<^verbatim>\<open>read\<close> calls on the opened file deliver. These are the content at the time of opening:
  the model does not follow a change made to a file while it is open for reading, which
  the program can only cause when a blob path is also its output path.
\<close>

definition open_read :: "path \<Rightarrow> world \<Rightarrow> (exn + byte list) \<times> world" where
  "open_read p w =
     (case files w p of
        None \<Rightarrow> (Inl (FileNotFoundError p), log_io (OpenRead p) w)
      | Some f \<Rightarrow>
          if readable f then (Inr (content f), log_io (OpenRead p) w)
          else (Inl (PermissionError p), log_io (OpenRead p) w))"

text \<open>
  \<^verbatim>\<open>open(p, 'wb')\<close>: creates the file or truncates it; an existing file that is not
  writable raises PermissionError and is left as it is.
\<close>

definition open_wb :: "path \<Rightarrow> world \<Rightarrow> (exn + unit) \<times> world" where
  "open_wb p w =
     (case files w p of
        None \<Rightarrow>
          (Inr (), log_io (OpenWrite p)
             (w\<lparr>files := (files w)(p \<mapsto> \<lparr>content = [], readable = True, writable = True\<rparr>)\<rparr>))
      | Some f \<Rightarrow>
          if writable f
          then (Inr (), log_io (OpenWrite p) (w\<lparr>files := (files w)(p \<mapsto> f\<lparr>content := []\<rparr>)\<rparr>))
          else (Inl (PermissionError p), log_io (OpenWrite p) w))"

text \<open>\<^verbatim>\<open>f.write(data)\<close> on a file opened with \<open>open_wb\<close>: the bytes are appended.\<close>

definition write_bytes :: "path \<Rightarrow> byte list \<Rightarrow> world \<Rightarrow> world" where
  "write_bytes p data w =
     log_io (WriteBytes p (length data))
       (case files w p of
          None \<Rightarrow> w
        | Some f \<Rightarrow> w\<lparr>files := (files w)(p \<mapsto> f\<lparr>content := content f @ data\<rparr>)\<rparr>)"

definition os_remove :: "path \<Rightarrow> world \<Rightarrow> world" where
  "os_remove p w = log_io (Remove p) (w\<lparr>files := (files w)(p := None)\<rparr>)"

section \<open>Resolving a layer to its blob (lines 42-45, 126-129, 202-205)\<close>

text \<open>
  \<^verbatim>\<open>digest = layer_info['digest']; sha = digest.split(':')[1]\<close>,
  \<^verbatim>\<open>source_blob = os.sep.join([blob_directory, 'sha256-' + sha])\<close>.
\<close>

definition source_blob_of :: "string \<Rightarrow> json \<Rightarrow> exn + path" where
  "source_blob_of blob_directory layer_info =
     (case py_getitem layer_info ''digest'' of
        Inl e \<Rightarrow> Inl e
      | Inr digest \<Rightarrow>
          (case py_split digest of
             Inl e \<Rightarrow> Inl e
           | Inr parts \<Rightarrow>
               (case parts of
                  _ # sha # _ \<Rightarrow> Inr (blob_directory @ ''/'' @ ''sha256-'' @ sha)
                | _ \<Rightarrow> Inl IndexError)))"

section \<open>\<^verbatim>\<open>get_model_size\<close> (lines 39-48)\<close>

fun get_model_size_loop :: "string \<Rightarrow> json list \<Rightarrow> nat \<Rightarrow> world \<Rightarrow> (exn + nat) \<times> world" where
  "get_model_size_loop blob_directory [] total_size w = (Inr total_size, w)"
| "get_model_size_loop blob_directory (layer_info # rest) total_size w =
     (case source_blob_of blob_directory layer_info of
        Inl e \<Rightarrow> (Inl e, w)
      | Inr source_blob \<Rightarrow>
          (case os_path_exists source_blob w of
             (True, w1) \<Rightarrow>
               (case os_path_getsize source_blob w1 of
                  (Inl e, w2) \<Rightarrow> (Inl e, w2)
                | (Inr n, w2) \<Rightarrow> get_model_size_loop blob_directory rest (total_size + n) w2)
           | (False, w1) \<Rightarrow> get_model_size_loop blob_directory rest total_size w1))"

definition get_model_size :: "json \<Rightarrow> string \<Rightarrow> world \<Rightarrow> (exn + nat) \<times> world" where
  "get_model_size layers blob_directory w =
     (case py_iter layers of
        Inl e \<Rightarrow> (Inl e, w)
      | Inr ls \<Rightarrow> get_model_size_loop blob_directory ls 0 w)"

section \<open>Metadata of \<^verbatim>\<open>recombine_model\<close> (lines 61-106)\<close>

text \<open>
  \<^verbatim>\<open>json.load\<close> and \<^verbatim>\<open>str\<close> belong to Python, not to the program: they are the parameters
  \<open>json_load\<close> (\<open>None\<close> when the text is not JSON) and \<open>py_str\<close>.
\<close>

definition load_json :: "(byte list \<Rightarrow> json option) \<Rightarrow> path \<Rightarrow> world \<Rightarrow> (exn + json) \<times> world" where
  "load_json json_load p w =
     (case open_read p w of
        (Inl e, w1) \<Rightarrow> (Inl e, w1)
      | (Inr data, w1) \<Rightarrow>
          (case json_load data of
             None \<Rightarrow> (Inl JSONDecodeError, w1)
           | Some v \<Rightarrow> (Inr v, w1)))"

text \<open>\<^verbatim>\<open>os.path.basename\<close> and \<^verbatim>\<open>os.path.dirname\<close> of \<^verbatim>\<open>posixpath\<close>.\<close>

definition os_path_basename :: "path \<Rightarrow> string" where
  "os_path_basename p = rev (takeWhile (\<lambda>c. c \<noteq> CHR ''/'') (rev p))"

definition os_path_dirname :: "path \<Rightarrow> string" where
  "os_path_dirname p =
     (let head = rev (dropWhile (\<lambda>c. c \<noteq> CHR ''/'') (rev p))
      in if head \<noteq> [] \<and> head \<noteq> replicate (length head) CHR ''/''
         then rev (dropWhile (\<lambda>c. c = CHR ''/'') (rev head))
         else head)"

text \<open>Lines 62-83: the manifest and the configuration document it points to.\<close>

definition load_config_data ::
  "(byte list \<Rightarrow> json option) \<Rightarrow> path \<Rightarrow> string \<Rightarrow> world \<Rightarrow> (exn + json \<times> json) \<times> world" where
  "load_config_data json_load manifest_path blob_directory w =
     (case load_json json_load manifest_path w of
        (Inl e, w1) \<Rightarrow> (Inl e, w1)
      | (Inr obj, w1) \<Rightarrow>
          (case py_get obj ''config'' of
             Inl e \<Rightarrow> (Inl e, w1)
           | Inr config \<Rightarrow>
               if \<not> truthy config
               then (Inl (ValueError ''Config section missing from JSON.''), w1)
               else
                 (case py_get config ''digest'' of
                    Inl e \<Rightarrow> (Inl e, w1)
                  | Inr digest \<Rightarrow>
                      if \<not> truthy digest
                      then (Inl (ValueError ''Digest missing from config section.''), w1)
                      else
                        (case py_split digest of
                           Inl e \<Rightarrow> (Inl e, w1)
                         | Inr parts \<Rightarrow>
                             (case load_json json_load
                                     (blob_directory @ ''/'' @ ''sha256-'' @ last parts) w1 of
                                (Inl e, w2) \<Rightarrow> (Inl e, w2)
                              | (Inr config_data, w2) \<Rightarrow> (Inr (obj, config_data), w2))))))"

text \<open>
  Lines 85-90: every exception of the three statements, the two assertions included,
  becomes the same ValueError.
\<close>

definition invalid_file_type :: exn where
  "invalid_file_type = ValueError ''Invalid or missing `file_type` parameter.''"

definition file_type_of :: "json \<Rightarrow> exn + string" where
  "file_type_of config_data =
     (case py_getitem config_data ''file_type'' of
        Inl e \<Rightarrow> Inl invalid_file_type
      | Inr modelQuant \<Rightarrow>
          (case py_len modelQuant of
             Inl e \<Rightarrow> Inl invalid_file_type
           | Inr n \<Rightarrow>
               if \<not> n > 0 then Inl invalid_file_type
               else (case modelQuant of
                       JStr s \<Rightarrow> Inr s
                     | _ \<Rightarrow> Inl invalid_file_type)))"

text \<open>Lines 92-97: only KeyError is caught.\<close>

definition trained_on_of :: "(json \<Rightarrow> string) \<Rightarrow> json \<Rightarrow> exn + string" where
  "trained_on_of py_str config_data =
     (case py_getitem config_data ''model_type'' of
        Inr v \<Rightarrow> Inr (py_str v)
      | Inl (KeyError k) \<Rightarrow> Inr ''unknown''
      | Inl e \<Rightarrow> Inl e)"

record metadata =
  md_layers :: json
  md_modelName :: string
  md_target_subdir :: string
  md_combined_filename :: string

definition resolve_metadata ::
  "(byte list \<Rightarrow> json option) \<Rightarrow> (json \<Rightarrow> string) \<Rightarrow> path \<Rightarrow> string \<Rightarrow> string \<Rightarrow> world
    \<Rightarrow> (exn + metadata) \<times> world" where
  "resolve_metadata json_load py_str manifest_path blob_directory output_directory w =
     (case load_config_data json_load manifest_path blob_directory w of
        (Inl e, w1) \<Rightarrow> (Inl e, w1)
      | (Inr (obj, config_data), w1) \<Rightarrow>
          (case file_type_of config_data of
             Inl e \<Rightarrow> (Inl e, w1)
           | Inr modelQuant \<Rightarrow>
               (case trained_on_of py_str config_data of
                  Inl e \<Rightarrow> (Inl e, w1)
                | Inr trained_on \<Rightarrow>
                    (case py_get obj ''layers'' of
                       Inl e \<Rightarrow> (Inl e, w1)
                     | Inr layers \<Rightarrow>
                         if \<not> truthy layers
                         then (Inl (ValueError ''Layers section is required but missing.''), w1)
                         else
                           (let modelName = os_path_basename (os_path_dirname manifest_path)
                            in (Inr \<lparr>md_layers = layers,
                                     md_modelName = modelName,
                                     md_target_subdir = output_directory @ ''/'' @ modelName,
                                     md_combined_filename =
                                       modelName @ ''-'' @ trained_on @ ''-'' @ modelQuant @ ''.gguf''\<rparr>,
                                w1))))))"

section \<open>The in-memory strategy (lines 117-180)\<close>

text \<open>
  The loop of lines 123-152. The two subscripts and the split are outside the \<^verbatim>\<open>try\<close>, so
  their exceptions leave the function; everything inside the \<^verbatim>\<open>try\<close> sets
  \<open>errors_occurred\<close> and the loop goes on.
\<close>

fun read_layers ::
  "string \<Rightarrow> string \<Rightarrow> nat \<Rightarrow> json list \<Rightarrow> byte list list \<Rightarrow> bool \<Rightarrow> world
    \<Rightarrow> (exn + byte list list \<times> bool) \<times> world" where
  "read_layers modelName blob_directory layer_index [] layer_contents errors_occurred w =
     (Inr (layer_contents, errors_occurred), w)"
| "read_layers modelName blob_directory layer_index (layer_info # rest) layer_contents errors_occurred w =
     (let w1 = emit (LayerIndex layer_index) w in
      case py_getitem layer_info ''mediaType'' of
        Inl e \<Rightarrow> (Inl e, w1)
      | Inr mediaType \<Rightarrow>
          (case source_blob_of blob_directory layer_info of
             Inl e \<Rightarrow> (Inl e, w1)
           | Inr source_blob \<Rightarrow>
               (case os_path_exists source_blob w1 of
                  (False, w2) \<Rightarrow>
                    read_layers modelName blob_directory (Suc layer_index) rest layer_contents True
                      (emit (BlobFailed modelName mediaType source_blob
                               (FileNotFoundError source_blob)) w2)
                | (True, w2) \<Rightarrow>
                    (case open_read source_blob
                            (emit (BlobReading modelName mediaType source_blob) w2) of
                       (Inl e, w3) \<Rightarrow>
                         read_layers modelName blob_directory (Suc layer_index) rest
                           layer_contents True
                           (emit (BlobFailed modelName mediaType source_blob e) w3)
                     | (Inr data, w3) \<Rightarrow>
                         read_layers modelName blob_directory (Suc layer_index) rest
                           (layer_contents @ [data]) errors_occurred
                           (emit (BlobSuccess modelName mediaType (length data)) w3)))))"

text \<open>
  Lines 164-180. Directories are not part of \<open>world\<close>: \<^verbatim>\<open>os.makedirs\<close> is taken to succeed.
\<close>

definition write_combined :: "string \<Rightarrow> string \<Rightarrow> byte list list \<Rightarrow> world \<Rightarrow> (exn + bool) \<times> world" where
  "write_combined target_subdir combined_filename layer_contents w =
     (let combined_content = concat layer_contents;
          final_output_filepath = target_subdir @ ''/'' @ combined_filename
      in case open_wb final_output_filepath w of
           (Inl e, w1) \<Rightarrow> (Inr False, emit (WriteError e) w1)
         | (Inr u, w1) \<Rightarrow>
             (Inr True,
              emit (Created final_output_filepath (length combined_content))
                (write_bytes final_output_filepath combined_content w1)))"

definition recombine_model_standard ::
  "string \<Rightarrow> json \<Rightarrow> string \<Rightarrow> string \<Rightarrow> string \<Rightarrow> world \<Rightarrow> (exn + bool) \<times> world" where
  "recombine_model_standard blob_directory layers modelName target_subdir combined_filename w =
     (let w1 = emit ReadingLayers (emit StandardProcessing w) in
      case py_iter layers of
        Inl e \<Rightarrow> (Inl e, w1)
      | Inr ls \<Rightarrow>
          (case read_layers modelName blob_directory 0 ls [] False w1 of
             (Inl e, w2) \<Rightarrow> (Inl e, w2)
           | (Inr (layer_contents, errors_occurred), w2) \<Rightarrow>
               if errors_occurred then (Inr False, emit (AbortedErrors modelName) w2)
               else if layer_contents = [] then (Inr False, emit (AbortedNoLayers modelName) w2)
               else write_combined target_subdir combined_filename layer_contents w2))"

section \<open>The chunked strategy: \<^verbatim>\<open>recombine_model_chunked\<close> (lines 182-256)\<close>

text \<open>\<^verbatim>\<open>f.read(n)\<close> on the bytes still unread: a negative \<open>n\<close> reads them all.\<close>

definition py_read :: "int \<Rightarrow> byte list \<Rightarrow> byte list" where
  "py_read n data = (if n < 0 then data else take (nat n) data)"

text \<open>
  The \<^verbatim>\<open>while True\<close> loop of lines 223-231. \<open>data\<close> are the bytes of the blob not yet read.
  The percentage of line 229 divides by \<open>file_size\<close>; the division is reached only
  after a chunk has been written.
\<close>

function copy_chunks :: "int \<Rightarrow> nat \<Rightarrow> path \<Rightarrow> nat \<Rightarrow> byte list \<Rightarrow> world \<Rightarrow> (exn + unit) \<times> world" where
  "copy_chunks chunk_size file_size final_output_filepath bytes_processed data w =
     (let chunk = py_read chunk_size data in
      if chunk = [] then (Inr (), w)
      else
        (let w1 = write_bytes final_output_filepath chunk w;
             bytes_processed' = bytes_processed + length chunk
         in if file_size = 0 then (Inl ZeroDivisionError, w1)
            else copy_chunks chunk_size file_size final_output_filepath bytes_processed'
                   (drop (length chunk) data)
                   (emit (Progress bytes_processed' file_size) w1)))"
  by pat_completeness auto
termination
  by (relation "measure (\<lambda>(cs, fs, p, bp, data, w). length data)") (auto simp: py_read_def split: if_splits)

declare copy_chunks.simps [simp del]

text \<open>The body of the inner \<^verbatim>\<open>try\<close> (lines 214-235).\<close>

definition copy_blob ::
  "int \<Rightarrow> string \<Rightarrow> json \<Rightarrow> path \<Rightarrow> path \<Rightarrow> world \<Rightarrow> (exn + unit) \<times> world" where
  "copy_blob chunk_size modelName mediaType source_blob final_output_filepath w =
     (case os_path_getsize source_blob w of
        (Inl e, w1) \<Rightarrow> (Inl e, w1)
      | (Inr file_size, w1) \<Rightarrow>
          (case open_read source_blob
                  (emit (ProcessingBlob modelName mediaType source_blob file_size) w1) of
             (Inl e, w2) \<Rightarrow> (Inl e, w2)
           | (Inr data, w2) \<Rightarrow>
               (case copy_chunks chunk_size file_size final_output_filepath 0 data w2 of
                  (Inl e, w3) \<Rightarrow> (Inl e, w3)
                | (Inr u, w3) \<Rightarrow>
                    (Inr (), emit (ProcessedBlob modelName mediaType file_size)
                               (emit ProgressEnd w3)))))"

text \<open>
  One pass of the \<^verbatim>\<open>for\<close> loop (lines 200-241). It ends in one of three ways: the loop
  goes on, the function returns False (lines 211 and 241), or an exception leaves the
  loop for the handler of line 247.
\<close>

datatype flow = Continue | ReturnFalse

definition chunked_layer ::
  "int \<Rightarrow> string \<Rightarrow> string \<Rightarrow> path \<Rightarrow> nat \<Rightarrow> json \<Rightarrow> world \<Rightarrow> (exn + flow) \<times> world" where
  "chunked_layer chunk_size blob_directory modelName final_output_filepath layer_index layer_info w =
     (let w1 = emit (LayerIndex layer_index) w in
      case py_getitem layer_info ''mediaType'' of
        Inl e \<Rightarrow> (Inl e, w1)
      | Inr mediaType \<Rightarrow>
          (case source_blob_of blob_directory layer_info of
             Inl e \<Rightarrow> (Inl e, w1)
           | Inr source_blob \<Rightarrow>
               (case os_path_exists source_blob w1 of
                  (False, w2) \<Rightarrow>
                    (Inr ReturnFalse, emit (BlobNotFound modelName mediaType source_blob) w2)
                | (True, w2) \<Rightarrow>
                    (case copy_blob chunk_size modelName mediaType source_blob
                            final_output_filepath w2 of
                       (Inl e, w3) \<Rightarrow>
                         (Inr ReturnFalse,
                          emit (ProcessingFailed modelName mediaType source_blob e) w3)
                     | (Inr u, w3) \<Rightarrow> (Inr Continue, w3)))))"

fun chunked_layers ::
  "int \<Rightarrow> string \<Rightarrow> string \<Rightarrow> path \<Rightarrow> nat \<Rightarrow> json list \<Rightarrow> world \<Rightarrow> (exn + flow) \<times> world" where
  "chunked_layers chunk_size blob_directory modelName final_output_filepath layer_index [] w =
     (Inr Continue, w)"
| "chunked_layers chunk_size blob_directory modelName final_output_filepath layer_index
     (layer_info # rest) w =
     (case chunked_layer chunk_size blob_directory modelName final_output_filepath
             layer_index layer_info w of
        (Inr Continue, w1) \<Rightarrow>
          chunked_layers chunk_size blob_directory modelName final_output_filepath
            (Suc layer_index) rest w1
      | (Inr ReturnFalse, w1) \<Rightarrow> (Inr ReturnFalse, w1)
      | (Inl e, w1) \<Rightarrow> (Inl e, w1))"

text \<open>The handler of lines 247-256. \<^verbatim>\<open>os.remove\<close> is taken to succeed.\<close>

definition cleanup_partial :: "exn \<Rightarrow> path \<Rightarrow> world \<Rightarrow> (exn + bool) \<times> world" where
  "cleanup_partial e final_output_filepath w =
     (case os_path_exists final_output_filepath (emit (ChunkedError e) w) of
        (True, w1) \<Rightarrow> (Inr False, emit RemovedIncomplete (os_remove final_output_filepath w1))
      | (False, w1) \<Rightarrow> (Inr False, w1))"

text \<open>
  \<open>manifest_path\<close> and \<open>output_directory\<close> are parameters of the source function that its
  body does not use.
\<close>

definition recombine_model_chunked ::
  "path \<Rightarrow> string \<Rightarrow> string \<Rightarrow> json \<Rightarrow> string \<Rightarrow> string \<Rightarrow> string \<Rightarrow> int \<Rightarrow> world
    \<Rightarrow> (exn + bool) \<times> world" where
  "recombine_model_chunked manifest_path blob_directory output_directory layers modelName
     target_subdir combined_filename chunk_size w =
     (let final_output_filepath = target_subdir @ ''/'' @ combined_filename in
      case open_wb final_output_filepath (emit (ChunkedStart chunk_size) w) of
        (Inl e, w1) \<Rightarrow> cleanup_partial e final_output_filepath w1
      | (Inr u, w1) \<Rightarrow>
          (case py_iter layers of
             Inl e \<Rightarrow> cleanup_partial e final_output_filepath w1
           | Inr ls \<Rightarrow>
               (case chunked_layers chunk_size blob_directory modelName final_output_filepath
                       0 ls w1 of
                  (Inl e, w2) \<Rightarrow> cleanup_partial e final_output_filepath w2
                | (Inr ReturnFalse, w2) \<Rightarrow> (Inr False, w2)
                | (Inr Continue, w2) \<Rightarrow>
                    (case os_path_getsize final_output_filepath w2 of
                       (Inl e, w3) \<Rightarrow> cleanup_partial e final_output_filepath w3
                     | (Inr final_size, w3) \<Rightarrow>
                         (Inr True, emit (Created final_output_filepath final_size) w3)))))"

section \<open>\<^verbatim>\<open>recombine_model\<close> (lines 50-180)\<close>

definition large_file_threshold :: nat where
  "large_file_threshold = 1 * 1024 * 1024 * 1024"

definition default_chunk_size :: int where
  "default_chunk_size = 16 * 1024 * 1024"

definition recombine_model ::
  "(byte list \<Rightarrow> json option) \<Rightarrow> (json \<Rightarrow> string) \<Rightarrow> path \<Rightarrow> string \<Rightarrow> string \<Rightarrow> world
    \<Rightarrow> (exn + bool) \<times> world" where
  "recombine_model json_load py_str manifest_path blob_directory output_directory w =
     (case resolve_metadata json_load py_str manifest_path blob_directory output_directory w of
        (Inl e, w1) \<Rightarrow> (Inl e, w1)
      | (Inr md, w1) \<Rightarrow>
          (case get_model_size (md_layers md) blob_directory w1 of
             (Inl e, w2) \<Rightarrow> (Inl e, w2)
           | (Inr total_size, w2) \<Rightarrow>
               if total_size > large_file_threshold
               then recombine_model_chunked manifest_path blob_directory output_directory
                      (md_layers md) (md_modelName md) (md_target_subdir md)
                      (md_combined_filename md) default_chunk_size
                      (emit (LargeModel total_size) w2)
               else recombine_model_standard blob_directory (md_layers md) (md_modelName md)
                      (md_target_subdir md) (md_combined_filename md) w2))"

section \<open>Notions used to state the properties\<close>

text \<open>The size a path contributes to an estimate: its length, or zero when nothing is there.\<close>

definition fragment_size :: "world \<Rightarrow> path \<Rightarrow> nat" where
  "fragment_size w p = (case files w p of None \<Rightarrow> 0 | Some f \<Rightarrow> length (content f))"

text \<open>File-system calls that create, change or delete a file.\<close>

fun is_write :: "io_op \<Rightarrow> bool" where
  "is_write (OpenWrite p) = True"
| "is_write (WriteBytes p n) = True"
| "is_write (Remove p) = True"
| "is_write _ = False"

text \<open>
  The \<^verbatim>\<open>file_type\<close> field of a configuration document, and the documents the
  specification rejects: the field is missing, is the empty string, or is not a string.
\<close>

definition file_type_field :: "json \<Rightarrow> json option" where
  "file_type_field config_data =
     (case config_data of JObj kvs \<Rightarrow> map_of kvs ''file_type'' | _ \<Rightarrow> None)"

definition bad_file_type :: "json \<Rightarrow> bool" where
  "bad_file_type config_data =
     (case file_type_field config_data of
        None \<Rightarrow> True
      | Some (JStr s) \<Rightarrow> s = []
      | Some _ \<Rightarrow> True)"

definition layers_field :: "json \<Rightarrow> json option" where
  "layers_field obj = (case obj of JObj kvs \<Rightarrow> map_of kvs ''layers'' | _ \<Rightarrow> None)"

text \<open>
  A layer of the shape the manifest format gives it: it has a \<^verbatim>\<open>mediaType\<close>, and its
  \<^verbatim>\<open>digest\<close> resolves to the blob path \<open>p\<close>.
\<close>

definition resolves :: "string \<Rightarrow> json \<Rightarrow> path \<Rightarrow> bool" where
  "resolves blob_directory layer_info p =
     (\<not> isl (py_getitem layer_info ''mediaType'')
      \<and> source_blob_of blob_directory layer_info = Inr p)"

text \<open>A blob that exists and can be opened for reading, and the bytes it holds.\<close>

definition fragment_readable :: "world \<Rightarrow> path \<Rightarrow> bool" where
  "fragment_readable w p = (case files w p of None \<Rightarrow> False | Some f \<Rightarrow> readable f)"

definition fragment_content :: "world \<Rightarrow> path \<Rightarrow> byte list" where
  "fragment_content w p = (case files w p of None \<Rightarrow> [] | Some f \<Rightarrow> content f)"

text \<open>The per-layer failure line of the in-memory strategy and the blob it names.\<close>

fun is_failure :: "event \<Rightarrow> bool" where
  "is_failure (BlobFailed mn m p x) = True"
| "is_failure _ = False"

fun failure_path :: "event \<Rightarrow> path" where
  "failure_path (BlobFailed mn m p x) = p"
| "failure_path _ = []"

fun is_stat :: "io_op \<Rightarrow> bool" where
  "is_stat (Stat p) = True"
| "is_stat _ = False"

fun op_path :: "io_op \<Rightarrow> path" where
  "op_path (Stat p) = p"
| "op_path (OpenRead p) = p"
| "op_path (OpenWrite p) = p"
| "op_path (WriteBytes p n) = p"
| "op_path (Remove p) = p"

text \<open>
  The file that \<^verbatim>\<open>open(p, 'wb')\<close> leaves at a path, given what was there; and the paths at
  which this call succeeds.
\<close>

definition truncated :: "inode option \<Rightarrow> inode" where
  "truncated x =
     (case x of
        None \<Rightarrow> \<lparr>content = [], readable = True, writable = True\<rparr>
      | Some f \<Rightarrow> f\<lparr>content := []\<rparr>)"

definition target_writable :: "world \<Rightarrow> path \<Rightarrow> bool" where
  "target_writable w p = (case files w p of None \<Rightarrow> True | Some f \<Rightarrow> writable f)"

text \<open>The console lines that report a failure of the conversion.\<close>

fun failure_line :: "event \<Rightarrow> bool" where
  "failure_line (AbortedErrors mn) = True"
| "failure_line (AbortedNoLayers mn) = True"
| "failure_line (WriteError e) = True"
| "failure_line (BlobNotFound mn m p) = True"
| "failure_line (ProcessingFailed mn m p e) = True"
| "failure_line (ChunkedError e) = True"
| "failure_line RemovedIncomplete = True"
| "failure_line _ = False"

text \<open>
  What a finished run shows of its outcome. After True, the last console line is the
  line \<^verbatim>\<open>Successfully created\<close> for a path at which a file exists, with that file's
  size. After False, the last console line is one of the failure lines. Nothing is asked
  of a run that raises.
\<close>

definition reports_outcome :: "(exn + bool) \<times> world \<Rightarrow> bool" where
  "reports_outcome r =
     (case fst r of
        Inl e \<Rightarrow> True
      | Inr True \<Rightarrow>
          stdout (snd r) \<noteq> [] \<and>
          (case last (stdout (snd r)) of
             Created p n \<Rightarrow>
               (case files (snd r) p of
                  None \<Rightarrow> False
                | Some f \<Rightarrow> length (content f) = n)
           | _ \<Rightarrow> False)
      | Inr False \<Rightarrow> stdout (snd r) \<noteq> [] \<and> failure_line (last (stdout (snd r))))"

section \<open>Example inputs\<close>

text \<open>
  A manifest \<^verbatim>\<open>/m/lib/tiny/latest\<close> with two layers, its configuration blob and the two
  layer blobs, all under \<^verbatim>\<open>/b\<close>. The example parser knows the two documents by their bytes.
\<close>

definition ex_layer :: "string \<Rightarrow> json" where
  "ex_layer hex =
     JObj [(''mediaType'', JStr ''application/x''), (''digest'', JStr (''sha256:'' @ hex))]"

definition ex_manifest :: json where
  "ex_manifest =
     JObj [(''config'', JObj [(''digest'', JStr ''sha256:cc'')]),
           (''layers'', JArr [ex_layer ''aa'', ex_layer ''bb''])]"

definition ex_config :: json where
  "ex_config = JObj [(''file_type'', JStr ''Q4_0''), (''model_type'', JStr ''llama'')]"

definition ex_config_empty_type :: json where
  "ex_config_empty_type = JObj [(''file_type'', JStr []), (''model_type'', JStr ''llama'')]"

definition ex_manifest_no_layers :: json where
  "ex_manifest_no_layers =
     JObj [(''config'', JObj [(''digest'', JStr ''sha256:cc'')]), (''layers'', JArr [])]"

definition ex_load :: "byte list \<Rightarrow> json option" where
  "ex_load bs =
     (if bs = [1] then Some ex_manifest
      else if bs = [2] then Some ex_config
      else if bs = [3] then Some ex_config_empty_type
      else if bs = [4] then Some ex_manifest_no_layers
      else None)"

definition ex_str :: "json \<Rightarrow> string" where
  "ex_str v = (case v of JStr s \<Rightarrow> s | _ \<Rightarrow> ''?'')"

definition mk_file :: "byte list \<Rightarrow> inode" where
  "mk_file bs = \<lparr>content = bs, readable = True, writable = True\<rparr>"

definition ex_world :: world where
  "ex_world =
     \<lparr>files = [''/m/lib/tiny/latest'' \<mapsto> mk_file [1],
               ''/b/sha256-cc'' \<mapsto> mk_file [2],
               ''/b/sha256-aa'' \<mapsto> mk_file [1, 2, 3],
               ''/b/sha256-bb'' \<mapsto> mk_file [4, 5]],
      stdout = [], trace = []\<rparr>"

text \<open>The same store with a configuration blob whose \<^verbatim>\<open>file_type\<close> is the empty string.\<close>

definition ex_world_empty_type :: world where
  "ex_world_empty_type = ex_world\<lparr>files := (files ex_world)(''/b/sha256-cc'' \<mapsto> mk_file [3])\<rparr>"

text \<open>The same store with a manifest whose \<^verbatim>\<open>layers\<close> list is empty.\<close>

definition ex_world_no_layers :: world where
  "ex_world_no_layers =
     ex_world\<lparr>files := (files ex_world)(''/m/lib/tiny/latest'' \<mapsto> mk_file [4])\<rparr>"

text \<open>
  The same store with a first blob of \<open>2 ^ 30 - 2\<close> bytes: the two blobs together have
  exactly \<open>2 ^ 30\<close> bytes.
\<close>

definition ex_threshold_world :: world where
  "ex_threshold_world =
     ex_world\<lparr>files := (files ex_world)(''/b/sha256-aa'' \<mapsto> mk_file (replicate 1073741822 0))\<rparr>"

text \<open>
  The same store with a first blob of \<open>2 ^ 30 + 1\<close> bytes and without the second blob.
\<close>

definition ex_large_world :: world where
  "ex_large_world =
     ex_world\<lparr>files := (files ex_world)
        (''/b/sha256-aa'' \<mapsto> mk_file (replicate 1073741825 0), ''/b/sha256-bb'' := None)\<rparr>"

text \<open>The same store with one more blob, of no bytes.\<close>

definition ex_world_empty_blob :: world where
  "ex_world_empty_blob = ex_world\<lparr>files := (files ex_world)(''/b/sha256-ee'' \<mapsto> mk_file [])\<rparr>"

text \<open>The same store with a second blob of one byte.\<close>

definition ex_world_small :: world where
  "ex_world_small = ex_world\<lparr>files := (files ex_world)(''/b/sha256-bb'' \<mapsto> mk_file [9])\<rparr>"

text \<open>The same store without the second blob.\<close>

definition ex_world_missing :: world where
  "ex_world_missing = ex_world\<lparr>files := (files ex_world)(''/b/sha256-bb'' := None)\<rparr>"

definition ex_md :: metadata where
  "ex_md =
     \<lparr>md_layers = JArr [ex_layer ''aa'', ex_layer ''bb''],
      md_modelName = ''tiny'',
      md_target_subdir = ''/out/tiny'',
      md_combined_filename = ''tiny-llama-Q4_0.gguf''\<rparr>"

section \<open>Basic facts\<close>

lemmas prim_defs = emit_def log_io_def os_path_exists_def os_path_getsize_def open_read_def
  open_wb_def write_bytes_def os_remove_def source_blob_of_def py_read_def

lemmas meta_defs = load_json_def os_path_basename_def os_path_dirname_def load_config_data_def
  invalid_file_type_def file_type_of_def trained_on_of_def resolve_metadata_def

lemmas run_defs = get_model_size_def write_combined_def recombine_model_standard_def
  copy_blob_def chunked_layer_def cleanup_partial_def recombine_model_chunked_def
  large_file_threshold_def default_chunk_size_def recombine_model_def

lemmas ex_defs = ex_layer_def ex_manifest_def ex_config_def ex_config_empty_type_def
  ex_manifest_no_layers_def ex_load_def ex_str_def mk_file_def ex_world_def
  ex_world_empty_type_def ex_world_no_layers_def ex_threshold_world_def ex_md_def
  ex_large_world_def ex_world_empty_blob_def ex_world_small_def ex_world_missing_def

lemma files_emit [simp]: "files (emit e w) = files w"
  and stdout_emit [simp]: "stdout (emit e w) = stdout w @ [e]"
  and trace_emit [simp]: "trace (emit e w) = trace w"
  by (simp_all add: emit_def)

lemma files_log_io [simp]: "files (log_io op w) = files w"
  and stdout_log_io [simp]: "stdout (log_io op w) = stdout w"
  and trace_log_io [simp]: "trace (log_io op w) = trace w @ [op]"
  by (simp_all add: log_io_def)

lemma fragment_size_cong: "files w' = files w \<Longrightarrow> fragment_size w' = fragment_size w"
  by (rule ext) (simp add: fragment_size_def)

section \<open>The size estimate\<close>

lemma get_model_size_loop_sum:
  assumes "list_all2 (\<lambda>l p. source_blob_of bd l = Inr p) ls ps"
  shows "fst (get_model_size_loop bd ls t w) = Inr (t + sum_list (map (fragment_size w) ps))
       \<and> files (snd (get_model_size_loop bd ls t w)) = files w
       \<and> stdout (snd (get_model_size_loop bd ls t w)) = stdout w"
  using assms
proof (induction ls ps arbitrary: t w rule: list_all2_induct)
  case Nil
  show ?case by simp
next
  case (Cons l ls p ps)
  show ?case
  proof (cases "files w p")
    case None
    then show ?thesis
      using Cons.hyps(1) Cons.IH [of t "log_io (Stat p) w"]
      by (simp add: os_path_exists_def fragment_size_def
          fragment_size_cong [of "log_io (Stat p) w" w])
  next
    case (Some f)
    then show ?thesis
      using Cons.hyps(1)
        Cons.IH [of "t + length (content f)" "log_io (Stat p) (log_io (Stat p) w)"]
      by (simp add: os_path_exists_def os_path_getsize_def fragment_size_def
          fragment_size_cong [of "log_io (Stat p) (log_io (Stat p) w)" w])
  qed
qed

text \<open>
  Claim C8. Let \<open>ls\<close> be a layer list in which every layer resolves to a blob path (it has
  a \<^verbatim>\<open>digest\<close> string with a colon), and let \<open>ps\<close> be those paths in order. Then
  \<open>get_model_size\<close> returns, without raising, the sum over \<open>ps\<close> of the size of the file at
  the path, a path where no file exists counting as zero; the files of the store and the
  console are as before.
\<close>

theorem get_model_size_sum:
  assumes "list_all2 (\<lambda>l p. source_blob_of bd l = Inr p) ls ps"
  shows "fst (get_model_size (JArr ls) bd w) = Inr (sum_list (map (fragment_size w) ps))
       \<and> files (snd (get_model_size (JArr ls) bd w)) = files w
       \<and> stdout (snd (get_model_size (JArr ls) bd w)) = stdout w"
  using get_model_size_loop_sum [OF assms, of 0 w] by (simp add: get_model_size_def)

theorem get_model_size_sum_witness:
  "list_all2 (\<lambda>l p. source_blob_of ''/b'' l = Inr p)
     [ex_layer ''aa'', ex_layer ''zz'', ex_layer ''bb'']
     [''/b/sha256-aa'', ''/b/sha256-zz'', ''/b/sha256-bb'']
   \<and> fst (get_model_size (JArr [ex_layer ''aa'', ex_layer ''zz'', ex_layer ''bb'']) ''/b'' ex_world)
       = Inr 5
   \<and> files (snd (get_model_size (JArr [ex_layer ''aa'', ex_layer ''zz'', ex_layer ''bb''])
                   ''/b'' ex_world)) = files ex_world"
proof -
  have h: "list_all2 (\<lambda>l p. source_blob_of ''/b'' l = Inr p)
     [ex_layer ''aa'', ex_layer ''zz'', ex_layer ''bb'']
     [''/b/sha256-aa'', ''/b/sha256-zz'', ''/b/sha256-bb'']"
    by (simp add: source_blob_of_def ex_layer_def)
  show ?thesis
    using h get_model_size_sum [OF h, of ex_world]
    by (simp add: fragment_size_def ex_world_def mk_file_def)
qed

section \<open>Metadata errors\<close>

lemma load_json_world: "load_json jl p w = (r, w1) \<Longrightarrow> w1 = log_io (OpenRead p) w"
  by (auto simp: load_json_def open_read_def split: option.splits if_splits)

lemma load_config_data_world:
  assumes "load_config_data jl mp bd w = (Inr (obj, cd), w1)"
  shows "\<exists>p. w1 = log_io (OpenRead p) (log_io (OpenRead mp) w)"
proof -
  obtain r0 w0 where l0: "load_json jl mp w = (r0, w0)" by (cases "load_json jl mp w")
  then have w0: "w0 = log_io (OpenRead mp) w" by (rule load_json_world)
  from assms l0 obtain p r2 where "load_json jl p w0 = (r2, w1)"
    by (auto simp: load_config_data_def split: sum.splits if_splits prod.splits)
  then have "w1 = log_io (OpenRead p) w0" by (rule load_json_world)
  with w0 show ?thesis by blast
qed

lemma file_type_of_bad: "bad_file_type cd \<Longrightarrow> file_type_of cd = Inl invalid_file_type"
  by (cases cd)
     (auto simp: bad_file_type_def file_type_field_def file_type_of_def
           split: option.splits json.splits)

lemma file_type_of_good: "\<not> bad_file_type cd \<Longrightarrow> \<exists>s. s \<noteq> [] \<and> file_type_of cd = Inr s"
  by (cases cd)
     (auto simp: bad_file_type_def file_type_field_def file_type_of_def
           split: option.splits json.splits)

lemma trained_on_of_total:
  assumes "file_type_of cd = Inr q"
  shows "\<exists>t. trained_on_of ps cd = Inr t"
proof (cases cd)
  case (JObj kvs)
  then show ?thesis by (simp add: trained_on_of_def split: option.splits)
qed (use assms in \<open>simp_all add: file_type_of_def\<close>)

text \<open>
  Claim C6. Take a run that has loaded the manifest \<open>obj\<close> and the configuration document
  \<open>cd\<close> it points to. If the \<^verbatim>\<open>file_type\<close> field of \<open>cd\<close> is missing, is the empty string
  or is not a string, \<open>recombine_model\<close> raises the ValueError
  \<^verbatim>\<open>Invalid or missing `file_type` parameter.\<close>, the same in the three cases; no file is
  created, changed or deleted, no such call is made, and nothing is printed.
\<close>

theorem invalid_file_type_error:
  assumes "fst (load_config_data jl mp bd w) = Inr (obj, cd)"
      and "bad_file_type cd"
  shows "fst (recombine_model jl ps mp bd od w) = Inl invalid_file_type
       \<and> files (snd (recombine_model jl ps mp bd od w)) = files w
       \<and> filter is_write (trace (snd (recombine_model jl ps mp bd od w)))
           = filter is_write (trace w)
       \<and> stdout (snd (recombine_model jl ps mp bd od w)) = stdout w"
proof -
  from assms(1) obtain w1 where l: "load_config_data jl mp bd w = (Inr (obj, cd), w1)"
    by (cases "load_config_data jl mp bd w") simp
  from load_config_data_world [OF l] obtain p
    where w1: "w1 = log_io (OpenRead p) (log_io (OpenRead mp) w)" ..
  have "recombine_model jl ps mp bd od w = (Inl invalid_file_type, w1)"
    by (simp add: recombine_model_def resolve_metadata_def l file_type_of_bad [OF assms(2)])
  then show ?thesis by (simp add: w1)
qed

theorem invalid_file_type_error_witness:
  "fst (load_config_data ex_load ''/m/lib/tiny/latest'' ''/b'' ex_world_empty_type)
     = Inr (ex_manifest, ex_config_empty_type)
   \<and> bad_file_type ex_config_empty_type
   \<and> fst (recombine_model ex_load ex_str ''/m/lib/tiny/latest'' ''/b'' ''/out''
            ex_world_empty_type) = Inl invalid_file_type
   \<and> files (snd (recombine_model ex_load ex_str ''/m/lib/tiny/latest'' ''/b'' ''/out''
                   ex_world_empty_type)) = files ex_world_empty_type"
proof -
  have h1: "fst (load_config_data ex_load ''/m/lib/tiny/latest'' ''/b'' ex_world_empty_type)
     = Inr (ex_manifest, ex_config_empty_type)"
    by (simp add: prim_defs meta_defs ex_defs)
  have h2: "bad_file_type ex_config_empty_type"
    by (simp add: bad_file_type_def file_type_field_def ex_config_empty_type_def)
  show ?thesis
    using h1 h2 invalid_file_type_error [OF h1 h2, of ex_str "''/out''"] by simp
qed

text \<open>
  Claim C7. Take a run that has loaded the manifest \<open>obj\<close> and a configuration document
  with a valid \<^verbatim>\<open>file_type\<close>. If the \<^verbatim>\<open>layers\<close> field of the manifest is absent or is the
  empty list, \<open>recombine_model\<close> raises the ValueError
  \<^verbatim>\<open>Layers section is required but missing.\<close>; the files and the console are as before,
  and the only file-system calls of the run are the opening of the manifest and of the
  configuration blob: no layer blob is looked at.
\<close>

theorem missing_layers_error:
  assumes "fst (load_config_data jl mp bd w) = Inr (obj, cd)"
      and "\<not> bad_file_type cd"
      and "layers_field obj = None \<or> layers_field obj = Some (JArr [])"
  shows "fst (recombine_model jl ps mp bd od w)
           = Inl (ValueError ''Layers section is required but missing.'')
       \<and> files (snd (recombine_model jl ps mp bd od w)) = files w
       \<and> stdout (snd (recombine_model jl ps mp bd od w)) = stdout w
       \<and> (\<exists>p. trace (snd (recombine_model jl ps mp bd od w))
                = trace w @ [OpenRead mp, OpenRead p])"
proof -
  from assms(1) obtain w1 where l: "load_config_data jl mp bd w = (Inr (obj, cd), w1)"
    by (cases "load_config_data jl mp bd w") simp
  from load_config_data_world [OF l] obtain p
    where w1: "w1 = log_io (OpenRead p) (log_io (OpenRead mp) w)" ..
  from file_type_of_good [OF assms(2)] obtain q where q: "file_type_of cd = Inr q" by blast
  from trained_on_of_total [OF q] obtain t where t: "trained_on_of ps cd = Inr t" ..
  from l obtain kvs where obj: "obj = JObj kvs"
    by (cases obj) (auto simp: load_config_data_def split: sum.splits prod.splits if_splits)
  from assms(3) have "\<exists>v. py_get obj ''layers'' = Inr v \<and> \<not> truthy v"
    by (auto simp: obj layers_field_def)
  then have "recombine_model jl ps mp bd od w
               = (Inl (ValueError ''Layers section is required but missing.''), w1)"
    by (auto simp: recombine_model_def resolve_metadata_def l q t)
  then show ?thesis by (simp add: w1)
qed

theorem missing_layers_error_witness:
  "fst (load_config_data ex_load ''/m/lib/tiny/latest'' ''/b'' ex_world_no_layers)
     = Inr (ex_manifest_no_layers, ex_config)
   \<and> \<not> bad_file_type ex_config
   \<and> layers_field ex_manifest_no_layers = Some (JArr [])
   \<and> fst (recombine_model ex_load ex_str ''/m/lib/tiny/latest'' ''/b'' ''/out''
            ex_world_no_layers) = Inl (ValueError ''Layers section is required but missing.'')
   \<and> trace (snd (recombine_model ex_load ex_str ''/m/lib/tiny/latest'' ''/b'' ''/out''
                   ex_world_no_layers))
       = [OpenRead ''/m/lib/tiny/latest'', OpenRead ''/b/sha256-cc'']"
proof -
  have h1: "fst (load_config_data ex_load ''/m/lib/tiny/latest'' ''/b'' ex_world_no_layers)
     = Inr (ex_manifest_no_layers, ex_config)"
    by (simp add: prim_defs meta_defs ex_defs)
  have h2: "\<not> bad_file_type ex_config"
    by (simp add: bad_file_type_def file_type_field_def ex_config_def)
  have h3': "layers_field ex_manifest_no_layers = Some (JArr [])"
    by (simp add: layers_field_def ex_manifest_no_layers_def)
  then have h3: "layers_field ex_manifest_no_layers = None
            \<or> layers_field ex_manifest_no_layers = Some (JArr [])" ..
  have t: "trace (snd (recombine_model ex_load ex_str ''/m/lib/tiny/latest'' ''/b'' ''/out''
                   ex_world_no_layers))
       = [OpenRead ''/m/lib/tiny/latest'', OpenRead ''/b/sha256-cc'']"
    using missing_layers_error [OF h1 h2 h3, of ex_str "''/out''"]
    by (simp add: prim_defs meta_defs run_defs ex_defs)
  show ?thesis
    using h1 h2 h3' t missing_layers_error [OF h1 h2 h3, of ex_str "''/out''"] by simp
qed

section \<open>Choice of the strategy\<close>

text \<open>
  Claim C2, as the code has it. Take a run whose metadata resolve to \<open>md\<close> and whose
  size estimate is \<open>t\<close> bytes. If \<open>t\<close> is greater than \<open>2 ^ 30\<close> the run is the chunked
  strategy with chunks of \<open>16 * 2 ^ 20\<close> bytes; if \<open>t\<close> is at most \<open>2 ^ 30\<close>, the value
  \<open>2 ^ 30\<close> itself included, it is the in-memory strategy.
\<close>

theorem strategy_selection:
  assumes "resolve_metadata jl ps mp bd od w = (Inr md, w1)"
      and "get_model_size (md_layers md) bd w1 = (Inr t, w2)"
  shows "recombine_model jl ps mp bd od w =
     (if 1073741824 < t
      then recombine_model_chunked mp bd od (md_layers md) (md_modelName md)
             (md_target_subdir md) (md_combined_filename md) 16777216
             (emit (LargeModel t) w2)
      else recombine_model_standard bd (md_layers md) (md_modelName md)
             (md_target_subdir md) (md_combined_filename md) w2)"
  by (simp add: recombine_model_def assms large_file_threshold_def default_chunk_size_def)

theorem strategy_selection_witness:
  "recombine_model ex_load ex_str ''/m/lib/tiny/latest'' ''/b'' ''/out'' ex_threshold_world
     = recombine_model_standard ''/b'' (md_layers ex_md) (md_modelName ex_md)
         (md_target_subdir ex_md) (md_combined_filename ex_md)
         (snd (get_model_size (md_layers ex_md) ''/b''
                 (snd (resolve_metadata ex_load ex_str ''/m/lib/tiny/latest'' ''/b'' ''/out''
                         ex_threshold_world))))"
proof -
  let ?r = "resolve_metadata ex_load ex_str ''/m/lib/tiny/latest'' ''/b'' ''/out''
              ex_threshold_world"
  let ?g = "get_model_size (md_layers ex_md) ''/b'' (snd ?r)"
  have "fst ?r = Inr ex_md"
    by (simp add: prim_defs meta_defs ex_defs Let_def)
  then have h1: "?r = (Inr ex_md, snd ?r)"
    by (metis prod.collapse)
  have "fst ?g = Inr 1073741824"
    by (simp add: prim_defs meta_defs run_defs ex_defs Let_def)
  then have h2: "?g = (Inr 1073741824, snd ?g)"
    by (metis prod.collapse)
  show ?thesis
    using strategy_selection [OF h1 h2] by simp
qed

text \<open>
  The claim as the specification states it fails: with blobs of exactly \<open>2 ^ 30\<close> bytes
  in total, the run is the in-memory strategy.
\<close>

theorem threshold_boundary_counterexample:
  "fst (get_model_size (JArr [ex_layer ''aa'', ex_layer ''bb'']) ''/b'' ex_threshold_world)
     = Inr large_file_threshold
   \<and> stdout (snd (recombine_model ex_load ex_str ''/m/lib/tiny/latest'' ''/b'' ''/out''
                    ex_threshold_world))
     = [StandardProcessing, ReadingLayers, LayerIndex 0,
        BlobReading ''tiny'' (JStr ''application/x'') ''/b/sha256-aa'',
        BlobSuccess ''tiny'' (JStr ''application/x'') 1073741822,
        LayerIndex 1,
        BlobReading ''tiny'' (JStr ''application/x'') ''/b/sha256-bb'',
        BlobSuccess ''tiny'' (JStr ''application/x'') 2,
        Created ''/out/tiny/tiny-llama-Q4_0.gguf'' 1073741824]"
  by (simp add: prim_defs meta_defs run_defs ex_defs Let_def)

section \<open>The in-memory strategy\<close>

lemma fragment_readable_cong: "files w' = files w \<Longrightarrow> fragment_readable w' = fragment_readable w"
  by (rule ext) (simp add: fragment_readable_def)

lemma fragment_content_cong: "files w' = files w \<Longrightarrow> fragment_content w' = fragment_content w"
  by (rule ext) (simp add: fragment_content_def)

lemma read_layers_missing:
  assumes "py_getitem l ''mediaType'' = Inr m" "source_blob_of bd l = Inr p" "files w p = None"
  shows "read_layers mn bd i (l # ls) acc err w =
         read_layers mn bd (Suc i) ls acc True
           (emit (BlobFailed mn m p (FileNotFoundError p)) (log_io (Stat p) (emit (LayerIndex i) w)))"
  using assms by (simp add: os_path_exists_def)

lemma read_layers_unreadable:
  assumes "py_getitem l ''mediaType'' = Inr m" "source_blob_of bd l = Inr p"
    "files w p = Some f" "\<not> readable f"
  shows "read_layers mn bd i (l # ls) acc err w =
         read_layers mn bd (Suc i) ls acc True
           (emit (BlobFailed mn m p (PermissionError p))
              (log_io (OpenRead p) (emit (BlobReading mn m p) (log_io (Stat p) (emit (LayerIndex i) w)))))"
  using assms by (simp add: os_path_exists_def open_read_def)

lemma read_layers_readable:
  assumes "py_getitem l ''mediaType'' = Inr m" "source_blob_of bd l = Inr p"
    "files w p = Some f" "readable f"
  shows "read_layers mn bd i (l # ls) acc err w =
         read_layers mn bd (Suc i) ls (acc @ [content f]) err
           (emit (BlobSuccess mn m (length (content f)))
              (log_io (OpenRead p) (emit (BlobReading mn m p) (log_io (Stat p) (emit (LayerIndex i) w)))))"
  using assms by (simp add: os_path_exists_def open_read_def)

lemma read_layers_run:
  assumes "list_all2 (resolves bd) ls ps"
  shows "\<exists>w' evs ops.
       read_layers mn bd i ls acc err w =
         (Inr (acc @ map (fragment_content w) (filter (fragment_readable w) ps),
               err \<or> \<not> list_all (fragment_readable w) ps), w')
     \<and> files w' = files w \<and> stdout w' = stdout w @ evs \<and> trace w' = trace w @ ops
     \<and> map failure_path (filter is_failure evs) = filter (\<lambda>p. \<not> fragment_readable w p) ps
     \<and> map op_path (filter is_stat ops) = ps
     \<and> filter is_write ops = []"
  using assms
proof (induction ls ps arbitrary: i acc err w rule: list_all2_induct)
  case Nil
  show ?case by simp
next
  case (Cons l ls p ps)
  from Cons.hyps(1) obtain m where m: "py_getitem l ''mediaType'' = Inr m"
    and p: "source_blob_of bd l = Inr p"
    by (cases "py_getitem l ''mediaType''") (auto simp: resolves_def)
  show ?case
  proof (cases "files w p")
    case None
    let ?w = "emit (BlobFailed mn m p (FileNotFoundError p)) (log_io (Stat p) (emit (LayerIndex i) w))"
    have fw: "files ?w = files w" by simp
    from Cons.IH [of "Suc i" acc True ?w] obtain w' evs ops where
      r: "read_layers mn bd (Suc i) ls acc True ?w =
         (Inr (acc @ map (fragment_content ?w) (filter (fragment_readable ?w) ps),
               True \<or> \<not> list_all (fragment_readable ?w) ps), w')"
      and f: "files w' = files ?w" and s: "stdout w' = stdout ?w @ evs" and t: "trace w' = trace ?w @ ops"
      and e: "map failure_path (filter is_failure evs) = filter (\<lambda>p. \<not> fragment_readable ?w p) ps"
      and o: "map op_path (filter is_stat ops) = ps" and wr: "filter is_write ops = []"
      by blast
    have nr: "\<not> fragment_readable w p" using None by (simp add: fragment_readable_def)
    show ?thesis
      apply (rule exI [of _ w'])
      apply (rule exI [of _ "LayerIndex i # BlobFailed mn m p (FileNotFoundError p) # evs"])
      apply (rule exI [of _ "Stat p # ops"])
      using r f s t e o wr nr
      by (simp del: read_layers.simps add: read_layers_missing [OF m p None] fragment_readable_cong [OF fw]
          fragment_content_cong [OF fw])
  next
    case (Some f)
    show ?thesis
    proof (cases "readable f")
      case False
      let ?w = "emit (BlobFailed mn m p (PermissionError p))
              (log_io (OpenRead p) (emit (BlobReading mn m p) (log_io (Stat p) (emit (LayerIndex i) w))))"
      have fw: "files ?w = files w" by simp
      from Cons.IH [of "Suc i" acc True ?w] obtain w' evs ops where
        r: "read_layers mn bd (Suc i) ls acc True ?w =
           (Inr (acc @ map (fragment_content ?w) (filter (fragment_readable ?w) ps),
                 True \<or> \<not> list_all (fragment_readable ?w) ps), w')"
        and f: "files w' = files ?w" and s: "stdout w' = stdout ?w @ evs" and t: "trace w' = trace ?w @ ops"
        and e: "map failure_path (filter is_failure evs) = filter (\<lambda>p. \<not> fragment_readable ?w p) ps"
        and o: "map op_path (filter is_stat ops) = ps" and wr: "filter is_write ops = []"
        by blast
      have nr: "\<not> fragment_readable w p" using Some False by (simp add: fragment_readable_def)
      show ?thesis
        apply (rule exI [of _ w'])
        apply (rule exI [of _ "LayerIndex i # BlobReading mn m p # BlobFailed mn m p (PermissionError p) # evs"])
        apply (rule exI [of _ "Stat p # OpenRead p # ops"])
        using r f s t e o wr nr
        by (simp del: read_layers.simps add: read_layers_unreadable [OF m p Some False] fragment_readable_cong [OF fw]
            fragment_content_cong [OF fw])
    next
      case True
      let ?w = "emit (BlobSuccess mn m (length (content f)))
              (log_io (OpenRead p) (emit (BlobReading mn m p) (log_io (Stat p) (emit (LayerIndex i) w))))"
      have fw: "files ?w = files w" by simp
      from Cons.IH [of "Suc i" "acc @ [content f]" err ?w] obtain w' evs ops where
        r: "read_layers mn bd (Suc i) ls (acc @ [content f]) err ?w =
           (Inr ((acc @ [content f]) @ map (fragment_content ?w) (filter (fragment_readable ?w) ps),
                 err \<or> \<not> list_all (fragment_readable ?w) ps), w')"
        and f: "files w' = files ?w" and s: "stdout w' = stdout ?w @ evs" and t: "trace w' = trace ?w @ ops"
        and e: "map failure_path (filter is_failure evs) = filter (\<lambda>p. \<not> fragment_readable ?w p) ps"
        and o: "map op_path (filter is_stat ops) = ps" and wr: "filter is_write ops = []"
        by blast
      have nr: "fragment_readable w p" "fragment_content w p = content f"
        using Some True by (simp_all add: fragment_readable_def fragment_content_def)
      show ?thesis
        apply (rule exI [of _ w'])
        apply (rule exI [of _ "LayerIndex i # BlobReading mn m p # BlobSuccess mn m (length (content f)) # evs"])
        apply (rule exI [of _ "Stat p # OpenRead p # ops"])
        using r f s t e o wr nr
        by (simp del: read_layers.simps add: read_layers_readable [OF m p Some True] fragment_readable_cong [OF fw]
            fragment_content_cong [OF fw])
    qed
  qed
qed




text \<open>
  Claim C4. For a layer list whose layers resolve to the blob paths \<open>ps\<close>, if some blob
  is missing or unreadable, or the list is empty, the in-memory strategy returns False;
  the files are as before and the run makes no call that creates, writes or deletes a
  file, so the output file is not created.
\<close>

theorem buffered_failure_no_write:
  assumes "list_all2 (resolves bd) ls ps"
      and "\<not> list_all (fragment_readable w) ps \<or> ls = []"
  shows "fst (recombine_model_standard bd (JArr ls) mn ts cf w) = Inr False
       \<and> files (snd (recombine_model_standard bd (JArr ls) mn ts cf w)) = files w
       \<and> filter is_write (trace (snd (recombine_model_standard bd (JArr ls) mn ts cf w)))
           = filter is_write (trace w)"
proof -
  let ?w1 = "emit ReadingLayers (emit StandardProcessing w)"
  have fw: "files ?w1 = files w" by simp
  from read_layers_run [OF assms(1), of mn 0 "[]" False ?w1] obtain w' evs ops where
    r: "read_layers mn bd 0 ls [] False ?w1 =
          (Inr (map (fragment_content ?w1) (filter (fragment_readable ?w1) ps),
                \<not> list_all (fragment_readable ?w1) ps), w')"
    and f: "files w' = files ?w1" and t: "trace w' = trace ?w1 @ ops"
    and wr: "filter is_write ops = []"
    by auto
  show ?thesis
  proof (cases "list_all (fragment_readable w) ps")
    case False
    then show ?thesis
      using r f t wr
      by (simp add: recombine_model_standard_def fragment_readable_cong [OF fw])
  next
    case True
    with assms have "ps = []" by auto
    then show ?thesis
      using r f t wr
      by (simp add: recombine_model_standard_def)
  qed
qed

theorem buffered_failure_no_write_witness:
  "list_all2 (resolves ''/b'')
     [ex_layer ''aa'', ex_layer ''zz'', ex_layer ''bb'']
     [''/b/sha256-aa'', ''/b/sha256-zz'', ''/b/sha256-bb'']
   \<and> \<not> list_all (fragment_readable ex_world)
         [''/b/sha256-aa'', ''/b/sha256-zz'', ''/b/sha256-bb'']
   \<and> fst (recombine_model_standard ''/b''
            (JArr [ex_layer ''aa'', ex_layer ''zz'', ex_layer ''bb''])
            ''tiny'' ''/out/tiny'' ''tiny-llama-Q4_0.gguf'' ex_world) = Inr False
   \<and> files (snd (recombine_model_standard ''/b''
            (JArr [ex_layer ''aa'', ex_layer ''zz'', ex_layer ''bb''])
            ''tiny'' ''/out/tiny'' ''tiny-llama-Q4_0.gguf'' ex_world)) = files ex_world"
proof -
  have h1: "list_all2 (resolves ''/b'')
     [ex_layer ''aa'', ex_layer ''zz'', ex_layer ''bb'']
     [''/b/sha256-aa'', ''/b/sha256-zz'', ''/b/sha256-bb'']"
    by (simp add: resolves_def source_blob_of_def ex_layer_def)
  have a: "\<not> list_all (fragment_readable ex_world)
         [''/b/sha256-aa'', ''/b/sha256-zz'', ''/b/sha256-bb'']"
    by (simp add: fragment_readable_def ex_world_def mk_file_def)
  then have h2: "\<not> list_all (fragment_readable ex_world)
         [''/b/sha256-aa'', ''/b/sha256-zz'', ''/b/sha256-bb'']
       \<or> [ex_layer ''aa'', ex_layer ''zz'', ex_layer ''bb''] = []" ..
  show ?thesis
    using h1 a
      buffered_failure_no_write [OF h1 h2, of "''tiny''" "''/out/tiny''" "''tiny-llama-Q4_0.gguf''"]
    by simp
qed

section \<open>The chunked strategy\<close>

lemma py_read_Nil [simp]: "py_read cs [] = []"
  by (simp add: py_read_def)

lemma py_read_nonempty: "cs \<noteq> 0 \<Longrightarrow> data \<noteq> [] \<Longrightarrow> py_read cs data \<noteq> []"
  by (auto simp: py_read_def)

lemma py_read_drop: "py_read cs data @ drop (length (py_read cs data)) data = data"
  by (simp add: py_read_def min_def)

lemma write_bytes_files:
  "files w dst = Some f \<Longrightarrow>
   files (write_bytes dst chunk w) = (files w)(dst \<mapsto> f\<lparr>content := content f @ chunk\<rparr>)"
  by (simp add: write_bytes_def)

lemma copy_chunks_run:
  assumes "cs \<noteq> 0" and "data = [] \<or> fsz \<noteq> 0" and "files w dst = Some f"
  shows "\<exists>w'. copy_chunks cs fsz dst bp data w = (Inr (), w')
      \<and> files w' = (files w)(dst \<mapsto> f\<lparr>content := content f @ data\<rparr>)"
  using assms
proof (induction cs fsz dst bp data w arbitrary: f rule: copy_chunks.induct)
  case (1 cs fsz dst bp data w)
  show ?case
  proof (cases "data = []")
    case True
    with "1.prems"(3) show ?thesis
      by (simp add: copy_chunks.simps [of cs fsz dst bp "[]" w] map_upd_triv)
  next
    case False
    let ?chunk = "py_read cs data"
    let ?f = "f\<lparr>content := content f @ ?chunk\<rparr>"
    let ?w = "emit (Progress (bp + length ?chunk) fsz) (write_bytes dst ?chunk w)"
    have ne: "?chunk \<noteq> []" using "1.prems"(1) False by (rule py_read_nonempty)
    have fz: "fsz \<noteq> 0" using "1.prems"(2) False by simp
    have fw: "files ?w dst = Some ?f"
      by (simp add: write_bytes_files [OF "1.prems"(3)])
    have "drop (length ?chunk) data = [] \<or> fsz \<noteq> 0" using fz by simp
    from "1.IH" [OF refl ne refl refl fz "1.prems"(1) this fw]
    obtain w' where r: "copy_chunks cs fsz dst (bp + length ?chunk) (drop (length ?chunk) data) ?w = (Inr (), w')"
      and f': "files w' = (files ?w)(dst \<mapsto> ?f\<lparr>content := content ?f @ drop (length ?chunk) data\<rparr>)"
      by blast
    have "content f @ ?chunk @ drop (length ?chunk) data = content f @ data"
      by (simp only: py_read_drop)
    with f' have "files w' = (files w)(dst \<mapsto> f\<lparr>content := content f @ data\<rparr>)"
      by (simp add: write_bytes_files [OF "1.prems"(3)])
    then have ff: "files w' = (files w)(dst \<mapsto> f\<lparr>content := content f @ data\<rparr>)" .
    have "copy_chunks cs fsz dst bp data w =
          copy_chunks cs fsz dst (bp + length ?chunk) (drop (length ?chunk) data) ?w"
      using ne fz by (simp add: copy_chunks.simps [of cs fsz dst bp data w] Let_def)
    with r have "copy_chunks cs fsz dst bp data w = (Inr (), w')" by simp
    with ff show ?thesis by blast
  qed
qed


lemma chunked_layer_missing:
  assumes "py_getitem l ''mediaType'' = Inr m" "source_blob_of bd l = Inr p" "files w p = None"
  shows "chunked_layer cs bd mn final i l w =
         (Inr ReturnFalse,
          emit (BlobNotFound mn m p) (log_io (Stat p) (emit (LayerIndex i) w)))"
  using assms by (simp add: chunked_layer_def os_path_exists_def)

lemma chunked_layer_unreadable:
  assumes "py_getitem l ''mediaType'' = Inr m" "source_blob_of bd l = Inr p"
    "files w p = Some g" "\<not> readable g"
  shows "chunked_layer cs bd mn final i l w =
         (Inr ReturnFalse,
          emit (ProcessingFailed mn m p (PermissionError p))
            (log_io (OpenRead p)
               (emit (ProcessingBlob mn m p (length (content g)))
                  (log_io (Stat p) (log_io (Stat p) (emit (LayerIndex i) w))))))"
  using assms
  by (simp add: chunked_layer_def copy_blob_def os_path_exists_def os_path_getsize_def
      open_read_def)

lemma chunked_layer_readable:
  assumes "py_getitem l ''mediaType'' = Inr m" "source_blob_of bd l = Inr p"
    "files w p = Some g" "readable g" "files w final = Some f" "cs \<noteq> 0"
  shows "\<exists>w'. chunked_layer cs bd mn final i l w = (Inr Continue, w')
       \<and> files w' = (files w)(final \<mapsto> f\<lparr>content := content f @ content g\<rparr>)"
proof -
  let ?w = "log_io (OpenRead p)
              (emit (ProcessingBlob mn m p (length (content g)))
                 (log_io (Stat p) (log_io (Stat p) (emit (LayerIndex i) w))))"
  have fw: "files ?w final = Some f" using assms(5) by simp
  have z: "content g = [] \<or> length (content g) \<noteq> 0" by simp
  from copy_chunks_run [OF assms(6) z fw, of 0] obtain w'
    where r: "copy_chunks cs (length (content g)) final 0 (content g) ?w = (Inr (), w')"
      and f: "files w' = (files ?w)(final \<mapsto> f\<lparr>content := content f @ content g\<rparr>)"
    by blast
  have "chunked_layer cs bd mn final i l w =
        (Inr Continue, emit (ProcessedBlob mn m (length (content g))) (emit ProgressEnd w'))"
    using assms(1-4) r
    by (simp add: chunked_layer_def copy_blob_def os_path_exists_def os_path_getsize_def
        open_read_def)
  with f show ?thesis by simp
qed

lemma chunked_layers_run:
  assumes "list_all2 (resolves bd) ls ps" and "final \<notin> set ps"
    and "files w final = Some f" and "cs \<noteq> 0"
  shows "\<exists>w'. chunked_layers cs bd mn final i ls w =
           (Inr (if list_all (fragment_readable w) ps then Continue else ReturnFalse), w')
       \<and> files w' = (files w)(final \<mapsto> f\<lparr>content := content f @
             concat (map (fragment_content w) (takeWhile (fragment_readable w) ps))\<rparr>)"
  using assms
proof (induction ls ps arbitrary: i w f rule: list_all2_induct)
  case Nil
  then show ?case by (simp add: map_upd_triv)
next
  case (Cons l ls p ps)
  from Cons.hyps(1) obtain m where m: "py_getitem l ''mediaType'' = Inr m"
    and p: "source_blob_of bd l = Inr p"
    by (cases "py_getitem l ''mediaType''") (auto simp: resolves_def)
  from Cons.prems have pf: "p \<noteq> final" and nf: "final \<notin> set ps" by auto
  show ?case
  proof (cases "files w p")
    case None
    then have "\<not> fragment_readable w p" by (simp add: fragment_readable_def)
    with Cons.prems(2) show ?thesis
      by (simp add: chunked_layer_missing [OF m p None] map_upd_triv)
  next
    case (Some g)
    show ?thesis
    proof (cases "readable g")
      case False
      with Some have "\<not> fragment_readable w p" by (simp add: fragment_readable_def)
      with Cons.prems(2) show ?thesis
        by (simp add: chunked_layer_unreadable [OF m p Some False] map_upd_triv)
    next
      case True
      let ?f = "f\<lparr>content := content f @ content g\<rparr>"
      from chunked_layer_readable [OF m p Some True Cons.prems(2) Cons.prems(3), of mn i]
      obtain w1 where r1: "chunked_layer cs bd mn final i l w = (Inr Continue, w1)"
        and f1: "files w1 = (files w)(final \<mapsto> ?f)"
        by blast
      have same: "files w1 q = files w q" if "q \<in> set ps" for q
        using that nf f1 by auto
      have rd: "fragment_readable w1 q = fragment_readable w q" if "q \<in> set ps" for q
        using same [OF that] by (simp add: fragment_readable_def)
      have ct: "fragment_content w1 q = fragment_content w q" if "q \<in> set ps" for q
        using same [OF that] by (simp add: fragment_content_def)
      have la: "list_all (fragment_readable w1) ps = list_all (fragment_readable w) ps"
        using rd by (simp add: list_all_iff)
      have tw: "takeWhile (fragment_readable w1) ps = takeWhile (fragment_readable w) ps"
        using rd by (intro takeWhile_cong) auto
      have mp: "map (fragment_content w1) (takeWhile (fragment_readable w) ps)
              = map (fragment_content w) (takeWhile (fragment_readable w) ps)"
        using ct by (intro map_cong) (auto dest: set_takeWhileD)
      have f1': "files w1 final = Some ?f" using f1 by simp
      from Cons.IH [OF nf f1' Cons.prems(3), of "Suc i"] obtain w'
        where r: "chunked_layers cs bd mn final (Suc i) ls w1 =
           (Inr (if list_all (fragment_readable w1) ps then Continue else ReturnFalse), w')"
        and f': "files w' = (files w1)(final \<mapsto> ?f\<lparr>content := content ?f @
             concat (map (fragment_content w1) (takeWhile (fragment_readable w1) ps))\<rparr>)"
        by blast
      have rp: "fragment_readable w p" "fragment_content w p = content g"
        using Some True by (simp_all add: fragment_readable_def fragment_content_def)
      have "chunked_layers cs bd mn final i (l # ls) w =
           (Inr (if list_all (fragment_readable w) (p # ps) then Continue else ReturnFalse), w')"
        using r1 r la rp by simp
      moreover have "files w' = (files w)(final \<mapsto> f\<lparr>content := content f @
             concat (map (fragment_content w) (takeWhile (fragment_readable w) (p # ps)))\<rparr>)"
        using f' f1 rp by (simp add: tw mp)
      ultimately show ?thesis by blast
    qed
  qed
qed


lemma open_wb_ok:
  assumes "target_writable w p"
  shows "open_wb p w =
    (Inr (), log_io (OpenWrite p) (w\<lparr>files := (files w)(p \<mapsto> truncated (files w p))\<rparr>))"
  using assms by (auto simp: open_wb_def target_writable_def truncated_def split: option.splits)

lemma recombine_model_chunked_run:
  assumes "list_all2 (resolves bd) ls ps" and "ts @ ''/'' @ cf \<notin> set ps"
    and "target_writable w (ts @ ''/'' @ cf)" and "cs \<noteq> 0"
  shows "fst (recombine_model_chunked mp bd od (JArr ls) mn ts cf cs w)
           = Inr (list_all (fragment_readable w) ps)
       \<and> files (snd (recombine_model_chunked mp bd od (JArr ls) mn ts cf cs w))
           = (files w)(ts @ ''/'' @ cf \<mapsto> (truncated (files w (ts @ ''/'' @ cf)))
                \<lparr>content := concat (map (fragment_content w) (takeWhile (fragment_readable w) ps))\<rparr>)"
proof -
  let ?final = "ts @ ''/'' @ cf"
  let ?f0 = "truncated (files w ?final)"
  let ?w0 = "emit (ChunkedStart cs) w"
  let ?w1 = "log_io (OpenWrite ?final) (?w0\<lparr>files := (files ?w0)(?final \<mapsto> truncated (files ?w0 ?final))\<rparr>)"
  have tw: "target_writable ?w0 ?final" using assms(3) by (simp add: target_writable_def)
  have o: "open_wb ?final ?w0 = (Inr (), ?w1)" by (rule open_wb_ok [OF tw])
  have f1: "files ?w1 ?final = Some ?f0" by simp
  have c0: "content ?f0 = []" by (simp add: truncated_def split: option.splits)
  have same: "files ?w1 q = files w q" if "q \<in> set ps" for q
    using that assms(2) by auto
  have rd: "fragment_readable ?w1 q = fragment_readable w q" if "q \<in> set ps" for q
    using same [OF that] by (simp add: fragment_readable_def)
  have ct: "fragment_content ?w1 q = fragment_content w q" if "q \<in> set ps" for q
    using same [OF that] by (simp add: fragment_content_def)
  have la: "list_all (fragment_readable ?w1) ps = list_all (fragment_readable w) ps"
    using rd by (simp add: list_all_iff)
  have tk: "takeWhile (fragment_readable ?w1) ps = takeWhile (fragment_readable w) ps"
    using rd by (intro takeWhile_cong) auto
  have mp: "map (fragment_content ?w1) (takeWhile (fragment_readable w) ps)
          = map (fragment_content w) (takeWhile (fragment_readable w) ps)"
    using ct by (intro map_cong) (auto dest: set_takeWhileD)
  from chunked_layers_run [OF assms(1,2) f1 assms(4), of mn 0] obtain w2
    where r: "chunked_layers cs bd mn ?final 0 ls ?w1 =
           (Inr (if list_all (fragment_readable w) ps then Continue else ReturnFalse), w2)"
      and f2: "files w2 = (files ?w1)(?final \<mapsto> ?f0\<lparr>content := content ?f0 @
             concat (map (fragment_content w) (takeWhile (fragment_readable w) ps))\<rparr>)"
    unfolding la tk mp by blast
  have f2': "files w2 = (files w)(?final \<mapsto> ?f0\<lparr>content :=
             concat (map (fragment_content w) (takeWhile (fragment_readable w) ps))\<rparr>)"
    using f2 c0 by simp
  show ?thesis
  proof (cases "list_all (fragment_readable w) ps")
    case True
    with o r f2' show ?thesis
      by (simp add: recombine_model_chunked_def Let_def os_path_getsize_def)
  next
    case False
    with o r f2' show ?thesis
      by (simp add: recombine_model_chunked_def Let_def)
  qed
qed







text \<open>
  Claim C1 does not hold of the code. In this run the first blob has \<open>2 ^ 30 + 1\<close> bytes,
  so the chunked strategy is chosen, and the second blob is missing. The output file
  does not exist before the run. The run returns False through line 211, which does not
  pass through the handler of line 247: after the run the output file exists and holds
  the \<open>2 ^ 30 + 1\<close> bytes written for the first blob.
\<close>

theorem streamed_failure_keeps_partial_artifact:
  "fst (recombine_model ex_load ex_str ''/m/lib/tiny/latest'' ''/b'' ''/out'' ex_large_world)
     = Inr False
   \<and> files ex_large_world ''/out/tiny/tiny-llama-Q4_0.gguf'' = None
   \<and> map_option (\<lambda>f. length (content f))
        (files (snd (recombine_model ex_load ex_str ''/m/lib/tiny/latest'' ''/b'' ''/out''
                       ex_large_world)) ''/out/tiny/tiny-llama-Q4_0.gguf'')
     = Some 1073741825"
proof -
  let ?r = "resolve_metadata ex_load ex_str ''/m/lib/tiny/latest'' ''/b'' ''/out'' ex_large_world"
  have "fst ?r = Inr ex_md" and "files (snd ?r) = files ex_large_world"
    by (simp_all add: prim_defs meta_defs ex_defs Let_def)
  then obtain w1 where h1: "?r = (Inr ex_md, w1)" and f1: "files w1 = files ex_large_world"
    by (cases ?r) auto
  have ps: "list_all2 (\<lambda>l p. source_blob_of ''/b'' l = Inr p)
              [ex_layer ''aa'', ex_layer ''bb''] [''/b/sha256-aa'', ''/b/sha256-bb'']"
    by (simp add: source_blob_of_def ex_layer_def)
  have sz: "sum_list (map (fragment_size ex_large_world) [''/b/sha256-aa'', ''/b/sha256-bb''])
            = 1073741825"
    by (simp add: fragment_size_def ex_large_world_def ex_world_def mk_file_def)
  let ?g = "get_model_size (md_layers ex_md) ''/b'' w1"
  let ?l = "get_model_size_loop ''/b'' [ex_layer ''aa'', ex_layer ''bb''] 0 w1"
  have g1: "fst ?l
      = Inr (0 + sum_list (map (fragment_size w1) [''/b/sha256-aa'', ''/b/sha256-bb'']))"
    and g2: "files (snd ?l) = files w1"
    using get_model_size_loop_sum [OF ps, of 0 w1] by blast+
  have gs: "?g = ?l"
    by (simp add: get_model_size_def ex_md_def del: get_model_size_loop.simps)
  have "fst ?g = Inr 1073741825"
    unfolding gs g1 fragment_size_cong [OF f1] sz by simp
  moreover have "files (snd ?g) = files ex_large_world"
    unfolding gs g2 f1 ..
  ultimately obtain w2 where h2: "?g = (Inr 1073741825, w2)" and f2: "files w2 = files ex_large_world"
    by (cases ?g) auto
  let ?w = "emit (LargeModel 1073741825) w2"
  have fw: "files ?w = files ex_large_world" using f2 by simp
  have d: "recombine_model ex_load ex_str ''/m/lib/tiny/latest'' ''/b'' ''/out'' ex_large_world
         = recombine_model_chunked ''/m/lib/tiny/latest'' ''/b'' ''/out''
             (JArr [ex_layer ''aa'', ex_layer ''bb'']) ''tiny'' ''/out/tiny''
             ''tiny-llama-Q4_0.gguf'' 16777216 ?w"
    using h2
    by (simp add: recombine_model_def h1 ex_md_def large_file_threshold_def default_chunk_size_def)
  have rs: "list_all2 (resolves ''/b'') [ex_layer ''aa'', ex_layer ''bb'']
              [''/b/sha256-aa'', ''/b/sha256-bb'']"
    by (simp add: resolves_def source_blob_of_def ex_layer_def)
  have nf: "''/out/tiny'' @ ''/'' @ ''tiny-llama-Q4_0.gguf'' \<notin> set [''/b/sha256-aa'', ''/b/sha256-bb'']"
    by simp
  have ab: "files ex_large_world ''/out/tiny/tiny-llama-Q4_0.gguf'' = None"
    by (simp add: ex_large_world_def ex_world_def)
  have tw: "target_writable ?w (''/out/tiny'' @ ''/'' @ ''tiny-llama-Q4_0.gguf'')"
    using ab by (simp add: target_writable_def f2)
  have cs: "(16777216::int) \<noteq> 0" by simp
  have ra: "fragment_readable ex_large_world ''/b/sha256-aa''"
    and rb: "\<not> fragment_readable ex_large_world ''/b/sha256-bb''"
    and ca: "fragment_content ex_large_world ''/b/sha256-aa'' = replicate 1073741825 0"
    by (simp_all add: fragment_readable_def fragment_content_def ex_large_world_def ex_world_def
        mk_file_def)
  from recombine_model_chunked_run [OF rs nf tw cs, of "''/m/lib/tiny/latest''" "''/out''" "''tiny''"]
  show ?thesis
    unfolding d fragment_readable_cong [OF fw] fragment_content_cong [OF fw]
    using ra rb ca ab by (simp add: f2)
qed

section \<open>The result of a run\<close>

lemma reports_outcome_raise [simp]: "reports_outcome (Inl e, w)"
  by (simp add: reports_outcome_def)













end
